theory Spec2Isabelle
  imports Main "HOL-Library.Multiset"
begin

section \<open>The community feed API of server.js\<close>

text \<open>
  The server keeps four SQLite tables (posts, media, reactions, comments) and a
  directory of uploaded files. Each table is a list of rows in insertion order, the
  directory is the set of the file names it holds. A handler takes the request's
  parameters, the values the environment supplies (\<open>uuidv4()\<close>, \<open>Date.now()\<close>) and
  the store, and returns the response together with the store it leaves behind.

  Strings are byte lists (UTF-8). Request fields are optional strings: \<open>None\<close> is a
  field that is absent (\<open>undefined\<close> in the handler). A JSON body could carry a
  number, a boolean, \<open>null\<close> or an object in a field; such requests are outside
  this model. Of the failures of the disk and of the database file, those of the
  delete handler are modelled: the order of its effects shows in them only.
\<close>

subsection \<open>Rows and the store\<close>

record post =
  p_id :: string
  p_author :: string
  p_text :: string
  p_community :: string
  p_created_at :: int

record media =
  m_id :: string
  m_post_id :: string
  m_filename :: string
  m_mime :: string

record reaction =
  r_id :: string
  r_post_id :: string
  r_type :: string
  r_user :: string
  r_created_at :: int

record comment =
  c_id :: string
  c_post_id :: string
  c_user :: string
  c_text :: string
  c_created_at :: int

record store =
  posts_tbl :: "post list"
  media_tbl :: "media list"
  reactions_tbl :: "reaction list"
  comments_tbl :: "comment list"
  upload_dir :: "string set"

subsection \<open>Responses\<close>

record media_view =
  url :: string
  mime :: string

text \<open>
  The \<open>post\<close> object of a response: the row's columns, and the keys the handler
  attached to it. \<open>None\<close> is a key the object does not have.
\<close>

record post_view =
  row :: post
  media :: "media_view list option"
  reactions :: "(string \<rightharpoonup> nat) option"
  comments_count :: "nat option"

text \<open>
  A JavaScript number as this server meets one: a double whose value is an integer,
  an infinity, or \<open>NaN\<close>. The sign of a zero never shows: \<open>-0\<close> is printed and
  bound as \<open>0\<close>.
\<close>

datatype number = Finite int | PosInfinity | NegInfinity | NaN

datatype body =
    Ok_body
  | Post_body post_view
  | Posts_body number number "post_view list"
  | Id_body string
  | Error_body string
  | Unhandled string

record response =
  status :: nat
  json :: body

definition res_json :: "body \<Rightarrow> response" where
  "res_json b = \<lparr>status = 200, json = b\<rparr>"

definition res_status_json :: "nat \<Rightarrow> body \<Rightarrow> response" where
  "res_status_json code b = \<lparr>status = code, json = b\<rparr>"

subsection \<open>SQL statements\<close>

text \<open>
  Every table declares \<open>id TEXT PRIMARY KEY\<close>: an insert whose id is already in the
  table fails and leaves the table as it was. A \<open>LIMIT\<close> or \<open>OFFSET\<close> bound to a value
  that is no integer fails with a datatype mismatch.
\<close>

datatype sqlite_error = SQLITE_CONSTRAINT string | SQLITE_MISMATCH

fun message :: "sqlite_error \<Rightarrow> string" where
  "message (SQLITE_CONSTRAINT col) = ''SQLITE_CONSTRAINT: UNIQUE constraint failed: '' @ col"
| "message SQLITE_MISMATCH = ''SQLITE_MISMATCH: datatype mismatch''"

definition insert_post :: "post \<Rightarrow> store \<Rightarrow> sqlite_error + store" where
  "insert_post r db =
     (if p_id r \<in> set (map p_id (posts_tbl db)) then Inl (SQLITE_CONSTRAINT ''posts.id'')
      else Inr (db\<lparr>posts_tbl := posts_tbl db @ [r]\<rparr>))"

definition insert_media :: "media \<Rightarrow> store \<Rightarrow> sqlite_error + store" where
  "insert_media r db =
     (if m_id r \<in> set (map m_id (media_tbl db)) then Inl (SQLITE_CONSTRAINT ''media.id'')
      else Inr (db\<lparr>media_tbl := media_tbl db @ [r]\<rparr>))"

definition insert_reaction :: "reaction \<Rightarrow> store \<Rightarrow> sqlite_error + store" where
  "insert_reaction r db =
     (if r_id r \<in> set (map r_id (reactions_tbl db)) then Inl (SQLITE_CONSTRAINT ''reactions.id'')
      else Inr (db\<lparr>reactions_tbl := reactions_tbl db @ [r]\<rparr>))"

definition insert_comment :: "comment \<Rightarrow> store \<Rightarrow> sqlite_error + store" where
  "insert_comment r db =
     (if c_id r \<in> set (map c_id (comments_tbl db)) then Inl (SQLITE_CONSTRAINT ''comments.id'')
      else Inr (db\<lparr>comments_tbl := comments_tbl db @ [r]\<rparr>))"

text \<open>\<open>SELECT * FROM posts WHERE id = ?\<close>, read with \<open>db.get\<close>: the first row or none.\<close>

definition select_post :: "string \<Rightarrow> store \<Rightarrow> post option" where
  "select_post i db = find (\<lambda>p. p_id p = i) (posts_tbl db)"

text \<open>\<open>SELECT filename, mime FROM media WHERE post_id = ?\<close>\<close>

definition select_media :: "string \<Rightarrow> store \<Rightarrow> media list" where
  "select_media i db = filter (\<lambda>m. m_post_id m = i) (media_tbl db)"

text \<open>\<open>SELECT COUNT(*) as cnt FROM comments WHERE post_id = ?\<close>: always one row.\<close>

definition count_comments :: "string \<Rightarrow> store \<Rightarrow> nat list" where
  "count_comments i db = [length (filter (\<lambda>c. c_post_id c = i) (comments_tbl db))]"

subsection \<open>Request fields\<close>

text \<open>
  A destructuring default \<open>{ f = d } = req.body\<close> applies when the field is absent;
  \<open>v || d\<close> applies when it is absent or the empty string.
\<close>

definition default_to :: "string \<Rightarrow> string option \<Rightarrow> string" where
  "default_to d v = (case v of None \<Rightarrow> d | Some s \<Rightarrow> s)"

definition or_else :: "string option \<Rightarrow> string \<Rightarrow> string" where
  "or_else v d = (case v of None \<Rightarrow> d | Some s \<Rightarrow> if s = [] then d else s)"

subsection \<open>Add a comment\<close>

text \<open>\<open>app.post('/api/posts/:id/comments')\<close>; \<open>!text\<close> holds of the empty string.\<close>

definition add_comment ::
  "string \<Rightarrow> int \<Rightarrow> string \<Rightarrow> string option \<Rightarrow> string option \<Rightarrow> store \<Rightarrow> response \<times> store" where
  "add_comment uuid now post_id user text db =
     (let user' = default_to ''anonymous'' user;
          text' = default_to [] text
      in if text' = [] then (res_status_json 400 (Error_body ''Texto vazio''), db)
         else
           (case insert_comment
                   \<lparr>c_id = uuid, c_post_id = post_id, c_user = user', c_text = text',
                    c_created_at = now\<rparr> db of
              Inl err \<Rightarrow> (res_status_json 500 (Error_body (message err)), db)
            | Inr db' \<Rightarrow> (res_json (Id_body uuid), db')))"

subsection \<open>Add a reaction\<close>

text \<open>\<open>app.post('/api/posts/:id/reactions')\<close>\<close>

definition add_reaction ::
  "string \<Rightarrow> int \<Rightarrow> string \<Rightarrow> string option \<Rightarrow> string option \<Rightarrow> store \<Rightarrow> response \<times> store" where
  "add_reaction uuid now post_id type user db =
     (let type' = default_to ''like'' type;
          user' = default_to ''anonymous'' user
      in case insert_reaction
                \<lparr>r_id = uuid, r_post_id = post_id, r_type = type', r_user = user',
                 r_created_at = now\<rparr> db of
           Inl err \<Rightarrow> (res_status_json 500 (Error_body (message err)), db)
         | Inr db' \<Rightarrow> (res_json (Id_body uuid), db'))"

subsection \<open>Fetch one post\<close>

definition to_view :: "media \<Rightarrow> media_view" where
  "to_view m = \<lparr>url = ''/uploads/'' @ m_filename m, mime = m_mime m\<rparr>"

text \<open>\<open>app.get('/api/posts/:id')\<close>: the row, with the key \<open>media\<close> added.\<close>

definition get_post :: "string \<Rightarrow> store \<Rightarrow> response" where
  "get_post i db =
     (case select_post i db of
        None \<Rightarrow> res_status_json 404 (Error_body ''not found'')
      | Some p \<Rightarrow>
          res_json (Post_body
            \<lparr>row = p, media = Some (map to_view (select_media i db)),
             reactions = None, comments_count = None\<rparr>))"

subsection \<open>Delete a post\<close>

text \<open>\<open>if (fs.existsSync(file)) fs.unlinkSync(file)\<close>\<close>

definition unlink_existing :: "string \<Rightarrow> store \<Rightarrow> store" where
  "unlink_existing f db =
     (if f \<in> upload_dir db then db\<lparr>upload_dir := upload_dir db - {f}\<rparr> else db)"

text \<open>
  \<open>app.delete('/api/posts/:id')\<close>: the files of the post's media rows first, then
  the four \<open>DELETE\<close> statements in the order of the source.
\<close>

definition delete_post :: "string \<Rightarrow> store \<Rightarrow> response \<times> store" where
  "delete_post i db =
     (let media = select_media i db;
          db1 = foldl (\<lambda>d m. unlink_existing (m_filename m) d) db media;
          db2 = db1\<lparr>media_tbl := filter (\<lambda>m. m_post_id m \<noteq> i) (media_tbl db1)\<rparr>;
          db3 = db2\<lparr>reactions_tbl := filter (\<lambda>r. r_post_id r \<noteq> i) (reactions_tbl db2)\<rparr>;
          db4 = db3\<lparr>comments_tbl := filter (\<lambda>c. c_post_id c \<noteq> i) (comments_tbl db3)\<rparr>;
          db5 = db4\<lparr>posts_tbl := filter (\<lambda>p. p_id p \<noteq> i) (posts_tbl db4)\<rparr>
      in (res_json Ok_body, db5))"






subsection \<open>Create a post\<close>

text \<open>
  A file as multer's disk storage hands it to the handler: the name it was stored
  under in the upload directory, and its MIME type.
\<close>

record upload =
  filename :: string
  mimetype :: string

text \<open>
  \<open>upload.array('files', 6)\<close>: more files than \<open>maxCount\<close> is an error that reaches
  no handler (and no file stays on disk); otherwise the files are in the directory
  when the handler starts.
\<close>

definition upload_array :: "nat \<Rightarrow> upload list \<Rightarrow> store \<Rightarrow> string + store" where
  "upload_array maxCount files db =
     (if maxCount < length files then Inl ''Unexpected field''
      else Inr (db\<lparr>upload_dir := upload_dir db \<union> set (map filename files)\<rparr>))"

text \<open>
  The loop over \<open>req.files\<close>. \<open>uuidv4 k\<close> is the value of the request's \<open>k\<close>-th call
  of \<open>uuidv4()\<close>. No transaction spans the statements: a failing insert keeps the
  rows written before it.
\<close>

fun insert_files ::
  "(nat \<Rightarrow> string) \<Rightarrow> nat \<Rightarrow> string \<Rightarrow> upload list \<Rightarrow> store \<Rightarrow> sqlite_error option \<times> store" where
  "insert_files uuidv4 k i [] db = (None, db)"
| "insert_files uuidv4 k i (f # fs) db =
     (case insert_media
             \<lparr>m_id = uuidv4 k, m_post_id = i, m_filename = filename f, m_mime = mimetype f\<rparr> db of
        Inl err \<Rightarrow> (Some err, db)
      | Inr db' \<Rightarrow> insert_files uuidv4 (Suc k) i fs db')"

text \<open>The default author, \<open>An\<close> \<open>o\<close>-circumflex \<open>nimo\<close>, in UTF-8.\<close>

definition Anonimo :: string where
  "Anonimo = ''An'' @ [CHR 0xC3, CHR 0xB4] @ ''nimo''"

definition bare :: "post \<Rightarrow> post_view" where
  "bare p = \<lparr>row = p, media = None, reactions = None, comments_count = None\<rparr>"

text \<open>
  \<open>app.post('/api/posts')\<close>. A \<open>post\<close> that were \<open>undefined\<close> would leave the
  response \<open>{success: true}\<close>.
\<close>

definition create_post ::
  "(nat \<Rightarrow> string) \<Rightarrow> int \<Rightarrow> string option \<Rightarrow> string option \<Rightarrow> string option \<Rightarrow>
   upload list \<Rightarrow> store \<Rightarrow> response \<times> store" where
  "create_post uuidv4 now text author community files db0 =
     (case upload_array 6 files db0 of
        Inl e \<Rightarrow> (res_status_json 500 (Unhandled e), db0)
      | Inr db \<Rightarrow>
          (let text' = default_to [] text;
               author' = default_to Anonimo author;
               community' = default_to [] community;
               i = uuidv4 0
           in case insert_post
                     \<lparr>p_id = i, p_author = author', p_text = text', p_community = community',
                      p_created_at = now\<rparr> db of
                Inl err \<Rightarrow> (res_status_json 500 (Error_body (message err)), db)
              | Inr db1 \<Rightarrow>
                  (case insert_files uuidv4 1 i files db1 of
                     (Some err, db2) \<Rightarrow> (res_status_json 500 (Error_body (message err)), db2)
                   | (None, db2) \<Rightarrow>
                       (case select_post i db2 of
                          None \<Rightarrow> (res_json Ok_body, db2)
                        | Some p \<Rightarrow> (res_json (Post_body (bare p)), db2)))))"

subsection \<open>List the feed\<close>

text \<open>The number of bits of a positive integer.\<close>

function bit_length :: "int \<Rightarrow> nat" where
  "bit_length n = (if n \<le> 0 then 0 else Suc (bit_length (n div 2)))"
  by pat_completeness auto
termination
  by (relation "measure nat") auto

text \<open>
  The double nearest to an integer, ties to the even significand: an integer of at
  most 53 bits is itself; a longer one keeps its 53 leading bits, rounded; from
  \<open>2 ^ 1024\<close> on the result is an infinity.
\<close>

definition to_double :: "int \<Rightarrow> number" where
  "to_double n =
     (let a = \<bar>n\<bar>;
          bits = bit_length a
      in if bits \<le> 53 then Finite n
         else
           (let e = bits - 53;
                q = a div 2 ^ e;
                r = a mod 2 ^ e;
                half = 2 ^ (e - 1);
                m = (if half < r \<or> (r = half \<and> odd q) then q + 1 else q);
                v = m * 2 ^ e
            in if 2 ^ 1024 \<le> v then (if n < 0 then NegInfinity else PosInfinity)
               else Finite (if n < 0 then - v else v)))"

text \<open>
  The white space that \<open>parseInt\<close> skips, as UTF-8: the code points U+0009 to
  U+000D, U+0020, U+00A0, U+1680, U+2000 to U+200A, U+2028, U+2029, U+202F, U+205F,
  U+3000 and U+FEFF.
\<close>

definition is_white_space :: "string \<Rightarrow> bool" where
  "is_white_space cp =
     (cp \<in> set
        [[CHR 0x09], [CHR 0x0A], [CHR 0x0B], [CHR 0x0C], [CHR 0x0D], [CHR 0x20],
         [CHR 0xC2, CHR 0xA0],
         [CHR 0xE1, CHR 0x9A, CHR 0x80],
         [CHR 0xE2, CHR 0x80, CHR 0x80], [CHR 0xE2, CHR 0x80, CHR 0x81],
         [CHR 0xE2, CHR 0x80, CHR 0x82], [CHR 0xE2, CHR 0x80, CHR 0x83],
         [CHR 0xE2, CHR 0x80, CHR 0x84], [CHR 0xE2, CHR 0x80, CHR 0x85],
         [CHR 0xE2, CHR 0x80, CHR 0x86], [CHR 0xE2, CHR 0x80, CHR 0x87],
         [CHR 0xE2, CHR 0x80, CHR 0x88], [CHR 0xE2, CHR 0x80, CHR 0x89],
         [CHR 0xE2, CHR 0x80, CHR 0x8A],
         [CHR 0xE2, CHR 0x80, CHR 0xA8], [CHR 0xE2, CHR 0x80, CHR 0xA9],
         [CHR 0xE2, CHR 0x80, CHR 0xAF],
         [CHR 0xE2, CHR 0x81, CHR 0x9F],
         [CHR 0xE3, CHR 0x80, CHR 0x80],
         [CHR 0xEF, CHR 0xBB, CHR 0xBF]])"

fun trim_start :: "string \<Rightarrow> string" where
  "trim_start (a # b # c # s) =
     (if is_white_space [a] then trim_start (b # c # s)
      else if is_white_space [a, b] then trim_start (c # s)
      else if is_white_space [a, b, c] then trim_start s
      else a # b # c # s)"
| "trim_start [a, b] =
     (if is_white_space [a] then trim_start [b]
      else if is_white_space [a, b] then []
      else [a, b])"
| "trim_start [a] = (if is_white_space [a] then [] else [a])"
| "trim_start [] = []"

definition digit_of :: "char \<Rightarrow> nat" where
  "digit_of c =
     (let n = (of_char c :: nat)
      in if 48 \<le> n \<and> n \<le> 57 then n - 48
         else if 97 \<le> n \<and> n \<le> 122 then n - 87
         else if 65 \<le> n \<and> n \<le> 90 then n - 55
         else 36)"

text \<open>
  \<open>parseInt\<close> with no radix: leading white space, a sign, the prefix \<open>0x\<close> for
  radix 16, then the longest run of digits; \<open>NaN\<close> when that run is empty, else
  the double nearest to the integer the digits spell.
\<close>

definition parseInt :: "string \<Rightarrow> number" where
  "parseInt inputString =
     (let S = trim_start inputString;
          negative = (take 1 S = ''-'');
          S1 = (if take 1 S = ''+'' \<or> take 1 S = ''-'' then drop 1 S else S);
          hex = (take 2 S1 = ''0x'' \<or> take 2 S1 = ''0X'');
          R = (if hex then 16 else 10);
          S2 = (if hex then drop 2 S1 else S1);
          Z = takeWhile (\<lambda>c. digit_of c < R) S2;
          mathInt = foldl (\<lambda>acc c. acc * int R + int (digit_of c)) 0 Z
      in if Z = [] then NaN else to_double (if negative then - mathInt else mathInt))"

text \<open>\<open>Math.max\<close>, \<open>Math.min\<close>, \<open>-\<close> and \<open>*\<close> on these numbers.\<close>

fun Math_max :: "number \<Rightarrow> number \<Rightarrow> number" where
  "Math_max (Finite x) (Finite y) = Finite (max x y)"
| "Math_max NaN b = NaN"
| "Math_max a NaN = NaN"
| "Math_max PosInfinity b = PosInfinity"
| "Math_max a PosInfinity = PosInfinity"
| "Math_max NegInfinity b = b"
| "Math_max a NegInfinity = a"

fun Math_min :: "number \<Rightarrow> number \<Rightarrow> number" where
  "Math_min (Finite x) (Finite y) = Finite (min x y)"
| "Math_min NaN b = NaN"
| "Math_min a NaN = NaN"
| "Math_min NegInfinity b = NegInfinity"
| "Math_min a NegInfinity = NegInfinity"
| "Math_min PosInfinity b = b"
| "Math_min a PosInfinity = a"

fun minus_num :: "number \<Rightarrow> number \<Rightarrow> number" where
  "minus_num (Finite x) (Finite y) = to_double (x - y)"
| "minus_num NaN b = NaN"
| "minus_num a NaN = NaN"
| "minus_num PosInfinity PosInfinity = NaN"
| "minus_num NegInfinity NegInfinity = NaN"
| "minus_num PosInfinity b = PosInfinity"
| "minus_num NegInfinity b = NegInfinity"
| "minus_num a PosInfinity = NegInfinity"
| "minus_num a NegInfinity = PosInfinity"

fun negative_num :: "number \<Rightarrow> bool" where
  "negative_num (Finite x) = (x < 0)"
| "negative_num NegInfinity = True"
| "negative_num PosInfinity = False"
| "negative_num NaN = False"

fun times_num :: "number \<Rightarrow> number \<Rightarrow> number" where
  "times_num (Finite x) (Finite y) = to_double (x * y)"
| "times_num a b =
     (if a = NaN \<or> b = NaN \<or> a = Finite 0 \<or> b = Finite 0 then NaN
      else if negative_num a \<noteq> negative_num b then NegInfinity
      else PosInfinity)"

text \<open>The three constants the handler computes from \<open>req.query\<close>.\<close>

definition page_of :: "string option \<Rightarrow> number" where
  "page_of qpage = Math_max (Finite 1) (parseInt (or_else qpage ''1''))"

definition limit_of :: "string option \<Rightarrow> number" where
  "limit_of qlimit = Math_min (Finite 50) (parseInt (or_else qlimit ''8''))"

definition offset_of :: "number \<Rightarrow> number \<Rightarrow> number" where
  "offset_of page limit = times_num (minus_num page (Finite 1)) limit"

text \<open>
  A number bound to \<open>LIMIT ?\<close> or \<open>OFFSET ?\<close>. SQLite takes an integer, and a
  double that converts to an integer strictly between \<open>- 2 ^ 63\<close> and \<open>2 ^ 63\<close>;
  \<open>NaN\<close> is bound as \<open>NULL\<close>. Every other value is a datatype mismatch.
\<close>

definition bind_integer :: "number \<Rightarrow> int option" where
  "bind_integer v =
     (case v of
        Finite n \<Rightarrow>
          if - 9223372036854775808 < n \<and> n < 9223372036854775808 then Some n else None
      | _ \<Rightarrow> None)"

text \<open>
  \<open>SELECT * FROM posts ORDER BY created_at DESC LIMIT ? OFFSET ?\<close>. Rows with the
  same \<open>created_at\<close> stay in table order (SQLite leaves their order open). A
  negative \<open>LIMIT\<close> is no limit, a negative \<open>OFFSET\<close> is 0.
\<close>

definition order_by_created_at_desc :: "post list \<Rightarrow> post list" where
  "order_by_created_at_desc rows = sort_key (\<lambda>p. - p_created_at p) rows"

definition select_posts_page :: "number \<Rightarrow> number \<Rightarrow> store \<Rightarrow> sqlite_error + post list" where
  "select_posts_page limit offset db =
     (case (bind_integer limit, bind_integer offset) of
        (Some l, Some off) \<Rightarrow>
          (let rest = drop (nat off) (order_by_created_at_desc (posts_tbl db))
           in Inr (if l < 0 then rest else take (nat l) rest))
      | _ \<Rightarrow> Inl SQLITE_MISMATCH)"

text \<open>\<open>SELECT type, COUNT(*) as cnt FROM reactions WHERE post_id = ? GROUP BY type\<close>\<close>

definition group_reactions :: "string \<Rightarrow> store \<Rightarrow> (string \<times> nat) list" where
  "group_reactions i db =
     (let mine = filter (\<lambda>r. r_post_id r = i) (reactions_tbl db)
      in map (\<lambda>t. (t, length (filter (\<lambda>r. r_type r = t) mine))) (remdups (map r_type mine)))"

text \<open>
  \<open>reactionObj[r.type] = r.cnt\<close> on an object literal. The key \<open>__proto__\<close> is the
  accessor of \<open>Object.prototype\<close>: its setter ignores a number and the object gets
  no property.
\<close>

definition set_property :: "(string \<rightharpoonup> nat) \<Rightarrow> string \<Rightarrow> nat \<Rightarrow> (string \<rightharpoonup> nat)" where
  "set_property obj k v = (if k = ''__proto__'' then obj else obj(k \<mapsto> v))"

text \<open>The body of \<open>rows.map\<close>: the row with \<open>media\<close>, \<open>reactions\<close> and \<open>comments_count\<close>.\<close>

definition attach :: "store \<Rightarrow> post \<Rightarrow> post_view" where
  "attach db p =
     (let media = select_media (p_id p) db;
          reactions = group_reactions (p_id p) db;
          comments = count_comments (p_id p) db;
          reactionObj = foldl (\<lambda>obj (t, cnt). set_property obj t cnt) Map.empty reactions
      in \<lparr>row = p, media = Some (map to_view media), reactions = Some reactionObj,
          comments_count = Some (case comments of [] \<Rightarrow> 0 | c # _ \<Rightarrow> c)\<rparr>)"

text \<open>\<open>app.get('/api/posts')\<close>\<close>

definition list_posts :: "string option \<Rightarrow> string option \<Rightarrow> store \<Rightarrow> response" where
  "list_posts qpage qlimit db =
     (let page = page_of qpage;
          limit = limit_of qlimit;
          offset = offset_of page limit
      in case select_posts_page limit offset db of
           Inl err \<Rightarrow> res_status_json 500 (Error_body (message err))
         | Inr rows \<Rightarrow> res_json (Posts_body page limit (map (attach db) rows)))"

text \<open>The posts of a response, when it carries a list.\<close>

fun listed :: "response \<Rightarrow> post_view list" where
  "listed r = (case json r of Posts_body _ _ vs \<Rightarrow> vs | _ \<Rightarrow> [])"

subsection \<open>Example stores\<close>

text \<open>
  A store with two posts. Post \<open>P\<close> owns two media rows (the file of the second is
  not on disk), three reactions \<open>like\<close> and one \<open>wow\<close>, and one comment.
\<close>

definition example_store :: store where
  "example_store =
     \<lparr>posts_tbl =
        [\<lparr>p_id = ''P'', p_author = ''Bob'', p_text = ''hi'', p_community = [], p_created_at = 100\<rparr>,
         \<lparr>p_id = ''Q'', p_author = ''Eve'', p_text = ''yo'', p_community = ''c'', p_created_at = 200\<rparr>],
      media_tbl =
        [\<lparr>m_id = ''m1'', m_post_id = ''P'', m_filename = ''100_a.png'', m_mime = ''image/png''\<rparr>,
         \<lparr>m_id = ''m2'', m_post_id = ''Q'', m_filename = ''200_q.png'', m_mime = ''image/png''\<rparr>,
         \<lparr>m_id = ''m3'', m_post_id = ''P'', m_filename = ''100_b.jpg'', m_mime = ''image/jpeg''\<rparr>],
      reactions_tbl =
        [\<lparr>r_id = ''r1'', r_post_id = ''P'', r_type = ''like'', r_user = ''anonymous'', r_created_at = 101\<rparr>,
         \<lparr>r_id = ''r2'', r_post_id = ''P'', r_type = ''wow'', r_user = ''A'', r_created_at = 102\<rparr>,
         \<lparr>r_id = ''r3'', r_post_id = ''Q'', r_type = ''like'', r_user = ''A'', r_created_at = 201\<rparr>,
         \<lparr>r_id = ''r4'', r_post_id = ''P'', r_type = ''like'', r_user = ''anonymous'', r_created_at = 103\<rparr>,
         \<lparr>r_id = ''r5'', r_post_id = ''P'', r_type = ''like'', r_user = ''B'', r_created_at = 104\<rparr>],
      comments_tbl =
        [\<lparr>c_id = ''c1'', c_post_id = ''P'', c_user = ''A'', c_text = ''nice'', c_created_at = 105\<rparr>],
      upload_dir = {''100_a.png'', ''200_q.png''}\<rparr>"

text \<open>Twenty posts, inserted out of the order of their \<open>created_at\<close>.\<close>

definition feed20 :: store where
  "feed20 =
     \<lparr>posts_tbl =
       [\<lparr>p_id = ''p01'', p_author = ''Bob'', p_text = ''hi'', p_community = [], p_created_at = 8\<rparr>,
        \<lparr>p_id = ''p02'', p_author = ''Bob'', p_text = ''hi'', p_community = [], p_created_at = 15\<rparr>,
        \<lparr>p_id = ''p03'', p_author = ''Bob'', p_text = ''hi'', p_community = [], p_created_at = 2\<rparr>,
        \<lparr>p_id = ''p04'', p_author = ''Bob'', p_text = ''hi'', p_community = [], p_created_at = 9\<rparr>,
        \<lparr>p_id = ''p05'', p_author = ''Bob'', p_text = ''hi'', p_community = [], p_created_at = 16\<rparr>,
        \<lparr>p_id = ''p06'', p_author = ''Bob'', p_text = ''hi'', p_community = [], p_created_at = 3\<rparr>,
        \<lparr>p_id = ''p07'', p_author = ''Bob'', p_text = ''hi'', p_community = [], p_created_at = 10\<rparr>,
        \<lparr>p_id = ''p08'', p_author = ''Bob'', p_text = ''hi'', p_community = [], p_created_at = 17\<rparr>,
        \<lparr>p_id = ''p09'', p_author = ''Bob'', p_text = ''hi'', p_community = [], p_created_at = 4\<rparr>,
        \<lparr>p_id = ''p10'', p_author = ''Bob'', p_text = ''hi'', p_community = [], p_created_at = 11\<rparr>,
        \<lparr>p_id = ''p11'', p_author = ''Bob'', p_text = ''hi'', p_community = [], p_created_at = 18\<rparr>,
        \<lparr>p_id = ''p12'', p_author = ''Bob'', p_text = ''hi'', p_community = [], p_created_at = 5\<rparr>,
        \<lparr>p_id = ''p13'', p_author = ''Bob'', p_text = ''hi'', p_community = [], p_created_at = 12\<rparr>,
        \<lparr>p_id = ''p14'', p_author = ''Bob'', p_text = ''hi'', p_community = [], p_created_at = 19\<rparr>,
        \<lparr>p_id = ''p15'', p_author = ''Bob'', p_text = ''hi'', p_community = [], p_created_at = 6\<rparr>,
        \<lparr>p_id = ''p16'', p_author = ''Bob'', p_text = ''hi'', p_community = [], p_created_at = 13\<rparr>,
        \<lparr>p_id = ''p17'', p_author = ''Bob'', p_text = ''hi'', p_community = [], p_created_at = 20\<rparr>,
        \<lparr>p_id = ''p18'', p_author = ''Bob'', p_text = ''hi'', p_community = [], p_created_at = 7\<rparr>,
        \<lparr>p_id = ''p19'', p_author = ''Bob'', p_text = ''hi'', p_community = [], p_created_at = 14\<rparr>,
        \<lparr>p_id = ''p20'', p_author = ''Bob'', p_text = ''hi'', p_community = [], p_created_at = 1\<rparr>],
      media_tbl = [], reactions_tbl = [], comments_tbl = [], upload_dir = {}\<rparr>"

text \<open>A post whose only reaction has the type \<open>__proto__\<close>.\<close>

definition proto_store :: store where
  "proto_store =
     \<lparr>posts_tbl =
        [\<lparr>p_id = ''P'', p_author = ''Bob'', p_text = ''hi'', p_community = [], p_created_at = 100\<rparr>],
      media_tbl = [],
      reactions_tbl =
        [\<lparr>r_id = ''r1'', r_post_id = ''P'', r_type = ''__proto__'', r_user = ''anonymous'',
          r_created_at = 101\<rparr>],
      comments_tbl = [], upload_dir = {}\<rparr>"

text \<open>A source of ids for the examples.\<close>

definition example_uuid :: "nat \<Rightarrow> string" where
  "example_uuid k = ''u'' @ replicate k (CHR ''x'')"

section \<open>Properties\<close>

subsection \<open>Auxiliary facts\<close>

lemma res_simps:
  "res_json b = \<lparr>status = 200, json = b\<rparr>"
  "res_status_json c b = \<lparr>status = c, json = b\<rparr>"
  by (simp_all add: res_json_def res_status_json_def)

lemma select_post_None: "select_post i db = None \<longleftrightarrow> i \<notin> p_id ` set (posts_tbl db)"
  by (auto simp: select_post_def find_None_iff)

lemma select_post_Some: "select_post i db = Some p \<Longrightarrow> p \<in> set (posts_tbl db) \<and> p_id p = i"
  by (auto simp: select_post_def find_Some_iff)

lemma filter_other: "i \<notin> f ` set xs \<Longrightarrow> filter (\<lambda>x. f x \<noteq> i) xs = xs"
  by (induction xs) auto

lemma filter_mine_empty: "i \<notin> f ` set xs \<Longrightarrow> filter (\<lambda>x. f x = i) xs = []"
  by (induction xs) auto

subsection \<open>Comments\<close>

text \<open>
  Claim C1. A comment request whose text is the empty string (or absent) is answered
  400 with the error \<open>Texto vazio\<close> and leaves the store as it was, so every post's
  comment count is unchanged. A request with a non-empty text, when the fresh id is
  not yet a key of the table, appends exactly one row to the comments and answers
  \<open>{success: true, id}\<close>.
\<close>

theorem add_comment_text_check:
  "add_comment uuid now i user (Some []) db =
     (\<lparr>status = 400, json = Error_body ''Texto vazio''\<rparr>, db)
   \<and> add_comment uuid now i user None db =
     (\<lparr>status = 400, json = Error_body ''Texto vazio''\<rparr>, db)
   \<and> (\<forall>j. count_comments j (snd (add_comment uuid now i user (Some []) db)) = count_comments j db)
   \<and> (t \<noteq> [] \<and> uuid \<notin> set (map c_id (comments_tbl db)) \<longrightarrow>
        add_comment uuid now i user (Some t) db =
          (\<lparr>status = 200, json = Id_body uuid\<rparr>,
           db\<lparr>comments_tbl := comments_tbl db @
                [\<lparr>c_id = uuid, c_post_id = i, c_user = default_to ''anonymous'' user, c_text = t,
                  c_created_at = now\<rparr>]\<rparr>))"
  by (simp add: add_comment_def default_to_def res_simps insert_comment_def)

theorem add_comment_text_check_witness:
  "add_comment ''c2'' 300 ''P'' (Some ''A'') (Some []) example_store =
     (\<lparr>status = 400, json = Error_body ''Texto vazio''\<rparr>, example_store)
   \<and> add_comment ''c2'' 300 ''P'' None (Some ''ok'') example_store =
     (\<lparr>status = 200, json = Id_body ''c2''\<rparr>,
      example_store\<lparr>comments_tbl :=
        [\<lparr>c_id = ''c1'', c_post_id = ''P'', c_user = ''A'', c_text = ''nice'', c_created_at = 105\<rparr>,
         \<lparr>c_id = ''c2'', c_post_id = ''P'', c_user = ''anonymous'', c_text = ''ok'',
           c_created_at = 300\<rparr>]\<rparr>)"
  using add_comment_text_check [of "''c2''" 300 "''P''" "Some ''A''" example_store "''ok''"]
    add_comment_text_check [of "''c2''" 300 "''P''" None example_store "''ok''"]
  by (simp add: example_store_def default_to_def)

subsection \<open>Reactions\<close>

text \<open>
  Claim C5. A reaction request succeeds whenever the fresh id is not yet a key of
  the table, and every successful request appends exactly one row to the reactions,
  whatever rows are there already: the rows before it, and the other tables, are as
  they were. The row carries the type and the user of the request; an absent type
  is \<open>like\<close>, an absent user \<open>anonymous\<close>.
\<close>

theorem add_reaction_appends:
  "(uuid \<notin> set (map r_id (reactions_tbl db)) \<longrightarrow>
      status (fst (add_reaction uuid now i type user db)) = 200)
   \<and> (status (fst (add_reaction uuid now i type user db)) = 200 \<longrightarrow>
        add_reaction uuid now i type user db =
          (\<lparr>status = 200, json = Id_body uuid\<rparr>,
           db\<lparr>reactions_tbl := reactions_tbl db @
                [\<lparr>r_id = uuid, r_post_id = i,
                  r_type = (case type of None \<Rightarrow> ''like'' | Some t \<Rightarrow> t),
                  r_user = (case user of None \<Rightarrow> ''anonymous'' | Some u \<Rightarrow> u),
                  r_created_at = now\<rparr>]\<rparr>))"
  by (simp add: add_reaction_def res_simps insert_reaction_def default_to_def)

theorem add_reaction_appends_witness:
  "add_reaction ''r6'' 300 ''P'' None None example_store =
     (\<lparr>status = 200, json = Id_body ''r6''\<rparr>,
      example_store\<lparr>reactions_tbl := reactions_tbl example_store @
         [\<lparr>r_id = ''r6'', r_post_id = ''P'', r_type = ''like'', r_user = ''anonymous'',
           r_created_at = 300\<rparr>]\<rparr>)
   \<and> \<lparr>r_id = ''r1'', r_post_id = ''P'', r_type = ''like'', r_user = ''anonymous'',
        r_created_at = 101\<rparr> \<in> set (reactions_tbl example_store)
   \<and> add_reaction ''r7'' 301 ''P'' (Some ''wow'') (Some ''A'') example_store =
     (\<lparr>status = 200, json = Id_body ''r7''\<rparr>,
      example_store\<lparr>reactions_tbl := reactions_tbl example_store @
         [\<lparr>r_id = ''r7'', r_post_id = ''P'', r_type = ''wow'', r_user = ''A'',
           r_created_at = 301\<rparr>]\<rparr>)
   \<and> \<lparr>r_id = ''r2'', r_post_id = ''P'', r_type = ''wow'', r_user = ''A'',
        r_created_at = 102\<rparr> \<in> set (reactions_tbl example_store)"
  using add_reaction_appends [of "''r6''" example_store 300 "''P''" None None]
    add_reaction_appends [of "''r7''" example_store 301 "''P''" "Some ''wow''" "Some ''A''"]
  by (simp add: example_store_def)

subsection \<open>Fetching one post\<close>

text \<open>
  Claim C7. When no post has the id, the answer is 404 with the error \<open>not found\<close> and
  no post. When one has, the answer is \<open>{success: true, post}\<close>: the row of that id
  with its media list, each entry the URL \<open>/uploads/\<close> followed by the file name
  and the MIME type, and neither reactions nor a comment count.
\<close>

theorem get_post_found_or_404:
  "(i \<notin> set (map p_id (posts_tbl db)) \<longrightarrow>
      get_post i db = \<lparr>status = 404, json = Error_body ''not found''\<rparr>)
   \<and> (i \<in> set (map p_id (posts_tbl db)) \<longrightarrow>
       (\<exists>p. p \<in> set (posts_tbl db) \<and> p_id p = i \<and>
          get_post i db =
            \<lparr>status = 200,
             json = Post_body
               \<lparr>row = p,
                media = Some (map (\<lambda>m. \<lparr>url = ''/uploads/'' @ m_filename m, mime = m_mime m\<rparr>)
                                (filter (\<lambda>m. m_post_id m = i) (media_tbl db))),
                reactions = None, comments_count = None\<rparr>\<rparr>))"
proof (cases "select_post i db")
  case None
  then show ?thesis
    using select_post_None [of i db] by (simp add: get_post_def res_simps)
next
  case (Some p)
  then have "p \<in> set (posts_tbl db) \<and> p_id p = i"
    by (rule select_post_Some)
  moreover have "i \<in> set (map p_id (posts_tbl db))"
    using Some select_post_None [of i db] by simp
  ultimately show ?thesis
    using Some by (auto simp: get_post_def res_simps select_media_def to_view_def)
qed

theorem get_post_found_or_404_witness:
  "get_post ''Z'' example_store = \<lparr>status = 404, json = Error_body ''not found''\<rparr>
   \<and> (\<exists>p. p \<in> set (posts_tbl example_store) \<and> p_id p = ''P'' \<and>
        get_post ''P'' example_store =
          \<lparr>status = 200,
           json = Post_body
             \<lparr>row = p,
              media = Some [\<lparr>url = ''/uploads/100_a.png'', mime = ''image/png''\<rparr>,
                            \<lparr>url = ''/uploads/100_b.jpg'', mime = ''image/jpeg''\<rparr>],
              reactions = None, comments_count = None\<rparr>\<rparr>)"
  using get_post_found_or_404 [of "''Z''" example_store]
    get_post_found_or_404 [of "''P''" example_store]
  by (simp add: example_store_def)

subsection \<open>Deleting a post\<close>

text \<open>
  Claim C10. Deleting an id that no post has, and that no media, reaction or comment
  row refers to, answers \<open>{success: true}\<close> with status 200 and leaves the store as
  it was.
\<close>

theorem delete_post_absent_unchanged:
  "i \<notin> set (map p_id (posts_tbl db)) \<and> i \<notin> set (map m_post_id (media_tbl db)) \<and>
   i \<notin> set (map r_post_id (reactions_tbl db)) \<and> i \<notin> set (map c_post_id (comments_tbl db)) \<longrightarrow>
   delete_post i db = (\<lparr>status = 200, json = Ok_body\<rparr>, db)"
  by (simp add: delete_post_def select_media_def res_simps filter_other filter_mine_empty)

theorem delete_post_absent_unchanged_witness:
  "delete_post ''Z'' example_store = (\<lparr>status = 200, json = Ok_body\<rparr>, example_store)"
  using delete_post_absent_unchanged [of "''Z''" example_store]
  by (simp add: example_store_def)

subsection \<open>Reactions and comments on any post id\<close>

text \<open>
  Claim C9. Neither handler looks the post id up. For every id, a reaction request,
  and a comment request with a non-empty text, whose fresh id is not yet a key of
  its table is answered \<open>{success: true, id}\<close> and appends a row carrying that post
  id; the posts table is as it was, so an id that matched no post still matches none.
\<close>

theorem post_id_unchecked:
  "(uuid \<notin> set (map r_id (reactions_tbl db)) \<longrightarrow>
      add_reaction uuid now i type user db =
        (\<lparr>status = 200, json = Id_body uuid\<rparr>,
         db\<lparr>reactions_tbl := reactions_tbl db @
              [\<lparr>r_id = uuid, r_post_id = i, r_type = default_to ''like'' type,
                r_user = default_to ''anonymous'' user, r_created_at = now\<rparr>]\<rparr>))
   \<and> (t \<noteq> [] \<and> uuid \<notin> set (map c_id (comments_tbl db)) \<longrightarrow>
      add_comment uuid now i user (Some t) db =
        (\<lparr>status = 200, json = Id_body uuid\<rparr>,
         db\<lparr>comments_tbl := comments_tbl db @
              [\<lparr>c_id = uuid, c_post_id = i, c_user = default_to ''anonymous'' user, c_text = t,
                c_created_at = now\<rparr>]\<rparr>))
   \<and> posts_tbl (snd (add_reaction uuid now i type user db)) = posts_tbl db
   \<and> posts_tbl (snd (add_comment uuid now i user text db)) = posts_tbl db"
  by (simp add: add_reaction_def add_comment_def res_simps insert_reaction_def insert_comment_def
      default_to_def split: option.split)

theorem post_id_unchecked_witness:
  "''Z'' \<notin> set (map p_id (posts_tbl example_store))
   \<and> add_reaction ''r6'' 300 ''Z'' (Some ''wow'') None example_store =
        (\<lparr>status = 200, json = Id_body ''r6''\<rparr>,
         example_store\<lparr>reactions_tbl := reactions_tbl example_store @
           [\<lparr>r_id = ''r6'', r_post_id = ''Z'', r_type = ''wow'', r_user = ''anonymous'',
             r_created_at = 300\<rparr>]\<rparr>)
   \<and> add_comment ''c2'' 300 ''Z'' None (Some ''ok'') example_store =
        (\<lparr>status = 200, json = Id_body ''c2''\<rparr>,
         example_store\<lparr>comments_tbl := comments_tbl example_store @
           [\<lparr>c_id = ''c2'', c_post_id = ''Z'', c_user = ''anonymous'', c_text = ''ok'',
             c_created_at = 300\<rparr>]\<rparr>)
   \<and> ''Z'' \<notin> set (map p_id (posts_tbl (snd (add_reaction ''r6'' 300 ''Z'' (Some ''wow'') None example_store))))
   \<and> ''Z'' \<notin> set (map p_id (posts_tbl (snd (add_comment ''c2'' 300 ''Z'' None (Some ''ok'') example_store))))"
  using post_id_unchecked [of "''r6''" example_store 300 "''Z''" "Some ''wow''" None "''ok''" "Some ''ok''"]
    post_id_unchecked [of "''c2''" example_store 300 "''Z''" "Some ''wow''" None "''ok''" "Some ''ok''"]
  by (simp add: example_store_def default_to_def)

subsection \<open>The feed\<close>

lemma bit_length_le: "n < 2 ^ k \<Longrightarrow> bit_length n \<le> k"
proof (induction k arbitrary: n)
  case 0
  then have "n \<le> 0" by simp
  then show ?case by simp
next
  case (Suc k)
  show ?case
  proof (cases "n \<le> 0")
    case True
    then show ?thesis by simp
  next
    case False
    have "n div 2 < 2 ^ k"
      using Suc.prems by simp
    then have "bit_length (n div 2) \<le> k"
      by (rule Suc.IH)
    then show ?thesis
      using False by simp
  qed
qed

lemma to_double_small: "\<bar>n\<bar> < 9007199254740992 \<Longrightarrow> to_double n = Finite n"
proof -
  assume "\<bar>n\<bar> < 9007199254740992"
  then have "\<bar>n\<bar> < 2 ^ 53"
    by simp
  then have "bit_length \<bar>n\<bar> \<le> 53"
    by (rule bit_length_le)
  then show ?thesis
    by (simp add: to_double_def Let_def)
qed

lemma parseInt_examples:
  "parseInt ''1'' = Finite 1" "parseInt ''8'' = Finite 8"
  "parseInt ''0'' = Finite 0" "parseInt ''2'' = Finite 2" "parseInt ''100'' = Finite 100"
  "parseInt ''abc'' = NaN"
  by (simp_all add: parseInt_def is_white_space_def digit_of_def to_double_small)

lemma parseInt_huge: "parseInt ''4611686018427387904'' = Finite 4611686018427387904"
  by code_simp

lemma parseInt_wide_examples:
  "parseInt [CHR 0xC2, CHR 0xA0, CHR ''5''] = Finite 5"
  "parseInt ''9007199254740993'' = Finite 9007199254740992"
  "parseInt '' -0x1f'' = Finite (- 31)"
  by code_simp+

lemma offset_huge: "offset_of (Finite 4611686018427387904) (Finite 8) = Finite 36893488147419103232"
  by code_simp

lemma offset_rounds:
  "offset_of (Finite 9007199254740992) (Finite 3) = Finite 27021597764222972"
  by code_simp

lemma page_of_ge: "page_of q = Finite p \<Longrightarrow> 1 \<le> p"
  by (cases "parseInt (or_else q ''1'')") (auto simp: page_of_def)

lemma limit_of_le: "limit_of q = Finite l \<Longrightarrow> l \<le> 50"
  by (cases "parseInt (or_else q ''8'')") (auto simp: limit_of_def)




lemma list_posts_cases:
  "list_posts qpage qlimit db =
     (case (bind_integer (limit_of qlimit),
            bind_integer (offset_of (page_of qpage) (limit_of qlimit))) of
        (Some l, Some off) \<Rightarrow>
          \<lparr>status = 200,
           json = Posts_body (page_of qpage) (limit_of qlimit)
             (map (attach db)
               (let rest = drop (nat off) (order_by_created_at_desc (posts_tbl db))
                in if l < 0 then rest else take (nat l) rest))\<rparr>
      | _ \<Rightarrow> \<lparr>status = 500, json = Error_body (message SQLITE_MISMATCH)\<rparr>)"
  by (simp add: list_posts_def select_posts_page_def res_simps Let_def split: option.split)

lemma list_posts_exact:
  assumes "page_of qpage = Finite p" and "limit_of qlimit = Finite l" and "0 \<le> l"
    and "p \<le> 9007199254740992" and "(p - 1) * l < 9007199254740992"
  shows "offset_of (Finite p) (Finite l) = Finite ((p - 1) * l)"
    and "list_posts qpage qlimit db =
       \<lparr>status = 200,
        json = Posts_body (Finite p) (Finite l)
          (map (attach db)
             (take (nat l) (drop (nat ((p - 1) * l)) (order_by_created_at_desc (posts_tbl db)))))\<rparr>"
proof -
  have p: "1 \<le> p"
    using assms(1) by (rule page_of_ge)
  have l: "l \<le> 50"
    using assms(2) by (rule limit_of_le)
  have "\<bar>p - 1\<bar> < 9007199254740992"
    using p assms(4) by simp
  then have m: "minus_num (Finite p) (Finite 1) = Finite (p - 1)"
    by (simp add: to_double_small)
  have nonneg: "0 \<le> (p - 1) * l"
    using p assms(3) by simp
  then have "\<bar>(p - 1) * l\<bar> < 9007199254740992"
    using assms(5) by simp
  then have t: "times_num (Finite (p - 1)) (Finite l) = Finite ((p - 1) * l)"
    by (simp add: to_double_small)
  show off: "offset_of (Finite p) (Finite l) = Finite ((p - 1) * l)"
    by (simp only: offset_of_def m t)
  have bl: "bind_integer (Finite l) = Some l"
    using assms(3) l by (simp add: bind_integer_def)
  have bo: "bind_integer (Finite ((p - 1) * l)) = Some ((p - 1) * l)"
    using nonneg assms(5) by (simp add: bind_integer_def)
  show "list_posts qpage qlimit db =
       \<lparr>status = 200,
        json = Posts_body (Finite p) (Finite l)
          (map (attach db)
             (take (nat l) (drop (nat ((p - 1) * l)) (order_by_created_at_desc (posts_tbl db)))))\<rparr>"
    using assms(3) by (simp add: list_posts_cases assms(1,2) off bl bo)
qed

lemma defaults:
  "page_of None = Finite 1" "page_of (Some []) = Finite 1"
  "limit_of None = Finite 8" "limit_of (Some []) = Finite 8"
  by (simp_all add: page_of_def limit_of_def or_else_def parseInt_examples)

lemma list_posts_default:
  "list_posts None None db =
     \<lparr>status = 200,
      json = Posts_body (Finite 1) (Finite 8)
        (map (attach db) (take 8 (order_by_created_at_desc (posts_tbl db))))\<rparr>"
  using list_posts_exact(2) [of None 1 None 8 db] by (simp add: defaults)

lemma order_sorted:
  "sorted_wrt (\<lambda>a b. p_created_at b \<le> p_created_at a) (order_by_created_at_desc rows)"
proof -
  have "sorted (map (\<lambda>p. - p_created_at p) (sort_key (\<lambda>p. - p_created_at p) rows))"
    by (rule sorted_sort_key)
  then show ?thesis
    by (simp add: order_by_created_at_desc_def sorted_map)
qed

lemma order_mset: "mset (order_by_created_at_desc rows) = mset rows"
  by (simp add: order_by_created_at_desc_def)

lemma row_attach: "map row (map (attach db) xs) = xs"
  by (induction xs) (simp_all add: attach_def Let_def)





text \<open>
  Claim C3, as amended. For every store, every page up to \<open>2 ^ 53\<close> and every limit
  from 0 on whose offset \<open>(page - 1) * limit\<close> is below \<open>2 ^ 53\<close>, the listed posts
  are the rows ordered by \<open>created_at\<close> descending (a permutation of the table),
  without the first \<open>(page - 1) * limit\<close> and cut to \<open>limit\<close> rows. With limit 8 and
  page 2 over twenty posts these are the posts ranked 9 to 16.
\<close>

theorem list_posts_window:
  "page_of qpage = Finite p \<and> limit_of qlimit = Finite l \<and> 0 \<le> l \<and>
   p \<le> 9007199254740992 \<and> (p - 1) * l < 9007199254740992 \<longrightarrow>
     list_posts qpage qlimit db =
       \<lparr>status = 200,
        json = Posts_body (Finite p) (Finite l)
          (map (attach db)
             (take (nat l) (drop (nat (p - 1) * nat l) (order_by_created_at_desc (posts_tbl db)))))\<rparr>
     \<and> map row (listed (list_posts qpage qlimit db)) =
         take (nat l) (drop (nat (p - 1) * nat l) (order_by_created_at_desc (posts_tbl db)))
     \<and> sorted_wrt (\<lambda>a b. p_created_at b \<le> p_created_at a)
         (order_by_created_at_desc (posts_tbl db))
     \<and> mset (order_by_created_at_desc (posts_tbl db)) = mset (posts_tbl db)"
proof
  assume h: "page_of qpage = Finite p \<and> limit_of qlimit = Finite l \<and> 0 \<le> l \<and>
   p \<le> 9007199254740992 \<and> (p - 1) * l < 9007199254740992"
  then have "1 \<le> p"
    using page_of_ge by blast
  then have off: "nat ((p - 1) * l) = nat (p - 1) * nat l"
    using h by (simp add: nat_mult_distrib)
  have resp: "list_posts qpage qlimit db =
       \<lparr>status = 200,
        json = Posts_body (Finite p) (Finite l)
          (map (attach db)
             (take (nat l) (drop (nat (p - 1) * nat l) (order_by_created_at_desc (posts_tbl db)))))\<rparr>"
    using h list_posts_exact(2) [of qpage p qlimit l db] by (simp add: off)
  then have "map row (listed (list_posts qpage qlimit db)) =
         take (nat l) (drop (nat (p - 1) * nat l) (order_by_created_at_desc (posts_tbl db)))"
    by (simp add: row_attach del: map_map)
  with resp order_sorted order_mset
  show "list_posts qpage qlimit db =
       \<lparr>status = 200,
        json = Posts_body (Finite p) (Finite l)
          (map (attach db)
             (take (nat l) (drop (nat (p - 1) * nat l) (order_by_created_at_desc (posts_tbl db)))))\<rparr>
     \<and> map row (listed (list_posts qpage qlimit db)) =
         take (nat l) (drop (nat (p - 1) * nat l) (order_by_created_at_desc (posts_tbl db)))
     \<and> sorted_wrt (\<lambda>a b. p_created_at b \<le> p_created_at a)
         (order_by_created_at_desc (posts_tbl db))
     \<and> mset (order_by_created_at_desc (posts_tbl db)) = mset (posts_tbl db)"
    by blast
qed

theorem list_posts_window_witness:
  "map (\<lambda>v. p_id (row v)) (listed (list_posts (Some ''2'') (Some ''8'') feed20)) =
     [''p13'', ''p10'', ''p07'', ''p04'', ''p01'', ''p18'', ''p15'', ''p12'']
   \<and> map (\<lambda>v. p_created_at (row v)) (listed (list_posts (Some ''2'') (Some ''8'') feed20)) =
     [12, 11, 10, 9, 8, 7, 6, 5]"
proof -
  have valid: "page_of (Some ''2'') = Finite 2 \<and> limit_of (Some ''8'') = Finite 8 \<and> (0::int) \<le> 8
      \<and> (2::int) \<le> 9007199254740992 \<and> ((2::int) - 1) * 8 < 9007199254740992"
    by (simp add: parseInt_examples page_of_def limit_of_def or_else_def)
  have "map row (listed (list_posts (Some ''2'') (Some ''8'') feed20)) =
      take (nat 8) (drop (nat (2 - 1) * nat 8) (order_by_created_at_desc (posts_tbl feed20)))"
    using list_posts_window [of "Some ''2''" 2 "Some ''8''" 8 feed20, THEN mp, OF valid]
    by blast
  then have rows: "map row (listed (list_posts (Some ''2'') (Some ''8'') feed20)) =
      take 8 (drop 8 (order_by_created_at_desc (posts_tbl feed20)))"
    by simp
  have "map (\<lambda>v. p_id (row v)) (listed (list_posts (Some ''2'') (Some ''8'') feed20)) =
      map p_id (map row (listed (list_posts (Some ''2'') (Some ''8'') feed20)))"
    and "map (\<lambda>v. p_created_at (row v)) (listed (list_posts (Some ''2'') (Some ''8'') feed20)) =
      map p_created_at (map row (listed (list_posts (Some ''2'') (Some ''8'') feed20)))"
    by simp_all
  then show ?thesis
    unfolding rows by (simp add: feed20_def order_by_created_at_desc_def)
qed

text \<open>
  The claim as first stated, for every page from 1 on, fails: the page \<open>2 ^ 62\<close>
  with the limit 8 has the offset \<open>2 ^ 65\<close>, which the query refuses, and the
  answer is 500.
\<close>

theorem list_posts_huge_page_rejected:
  "page_of (Some ''4611686018427387904'') = Finite 4611686018427387904
   \<and> limit_of (Some ''8'') = Finite 8
   \<and> list_posts (Some ''4611686018427387904'') (Some ''8'') feed20 =
       \<lparr>status = 500, json = Error_body ''SQLITE_MISMATCH: datatype mismatch''\<rparr>"
proof -
  have p: "page_of (Some ''4611686018427387904'') = Finite 4611686018427387904"
    by (simp add: page_of_def or_else_def parseInt_huge)
  have l: "limit_of (Some ''8'') = Finite 8"
    by (simp add: limit_of_def or_else_def parseInt_examples)
  have "bind_integer (offset_of (Finite 4611686018427387904) (Finite 8)) = None"
    by (simp add: offset_huge bind_integer_def)
  then have "list_posts (Some ''4611686018427387904'') (Some ''8'') feed20 =
       \<lparr>status = 500, json = Error_body ''SQLITE_MISMATCH: datatype mismatch''\<rparr>"
    by (simp add: list_posts_cases p l split: option.split)
  then show ?thesis
    using p l by blast
qed

subsection \<open>Deleting a post and what it owns\<close>















subsection \<open>Creating a post\<close>

lemma insert_media_fresh:
  "m_id r \<notin> m_id ` set (media_tbl db) \<Longrightarrow>
   insert_media r db = Inr (db\<lparr>media_tbl := media_tbl db @ [r]\<rparr>)"
  by (simp add: insert_media_def)

lemma insert_files_fresh:
  "distinct (map uuidv4 [k..<k + length fs]) \<Longrightarrow>
   \<forall>j\<in>{k..<k + length fs}. uuidv4 j \<notin> m_id ` set (media_tbl db) \<Longrightarrow>
   insert_files uuidv4 k i fs db =
     (None, db\<lparr>media_tbl := media_tbl db @
        map (\<lambda>(j, f). \<lparr>m_id = uuidv4 j, m_post_id = i, m_filename = filename f, m_mime = mimetype f\<rparr>)
          (zip [k..<k + length fs] fs)\<rparr>)"
proof (induction fs arbitrary: k db)
  case Nil
  then show ?case by simp
next
  case (Cons f fs)
  let ?r = "\<lparr>m_id = uuidv4 k, m_post_id = i, m_filename = filename f, m_mime = mimetype f\<rparr>"
  let ?db' = "db\<lparr>media_tbl := media_tbl db @ [?r]\<rparr>"
  have upt: "[k..<k + length (f # fs)] = k # [Suc k..<Suc k + length fs]"
    using upt_conv_Cons [of k "k + length (f # fs)"] by simp
  have fresh_k: "uuidv4 k \<notin> m_id ` set (media_tbl db)"
    using Cons.prems(2) by simp
  have ins: "insert_media ?r db = Inr ?db'"
    using fresh_k by (simp add: insert_media_fresh)
  have d: "distinct (map uuidv4 [Suc k..<Suc k + length fs])"
    and nk: "uuidv4 k \<notin> uuidv4 ` set [Suc k..<Suc k + length fs]"
    using Cons.prems(1) unfolding upt by simp_all
  have fr: "\<forall>j\<in>{Suc k..<Suc k + length fs}. uuidv4 j \<notin> m_id ` set (media_tbl ?db')"
  proof
    fix j assume j: "j \<in> {Suc k..<Suc k + length fs}"
    then have "uuidv4 j \<notin> m_id ` set (media_tbl db)"
      using Cons.prems(2) by simp
    moreover have "j \<in> set [Suc k..<Suc k + length fs]"
      using j by (simp only: set_upt)
    then have "uuidv4 j \<in> uuidv4 ` set [Suc k..<Suc k + length fs]"
      by (rule imageI)
    then have "uuidv4 j \<noteq> uuidv4 k"
      using nk by metis
    ultimately show "uuidv4 j \<notin> m_id ` set (media_tbl ?db')"
      by simp
  qed
  have "insert_files uuidv4 k i (f # fs) db = insert_files uuidv4 (Suc k) i fs ?db'"
    by (simp add: ins)
  also have "\<dots> = (None, ?db'\<lparr>media_tbl := media_tbl ?db' @
        map (\<lambda>(j, f). \<lparr>m_id = uuidv4 j, m_post_id = i, m_filename = filename f, m_mime = mimetype f\<rparr>)
          (zip [Suc k..<Suc k + length fs] fs)\<rparr>)"
    using d fr by (rule Cons.IH)
  also have "\<dots> = (None, db\<lparr>media_tbl := media_tbl db @
        map (\<lambda>(j, f). \<lparr>m_id = uuidv4 j, m_post_id = i, m_filename = filename f, m_mime = mimetype f\<rparr>)
          (zip [k..<k + length (f # fs)] (f # fs))\<rparr>)"
    unfolding upt by simp
  finally show ?case .
qed

lemma find_appended: "i \<notin> f ` set xs \<Longrightarrow> f y = i \<Longrightarrow> find (\<lambda>x. f x = i) (xs @ [y]) = Some y"
  by (induction xs) auto

text \<open>
  Claim C8. A create request with at most six files, whose fresh ids are new keys
  and differ from each other, appends exactly one row to the posts (an absent
  author is \<open>Anonimo\<close> with its circumflex, an absent text or community is empty,
  \<open>created_at\<close> is the current time) and one media row for each file, in order.
  The answer is \<open>{success: true, post}\<close> with the row just inserted and no media,
  reactions or comment count.
\<close>

theorem create_post_inserts:
  "length files \<le> 6 \<and> uuidv4 0 \<notin> set (map p_id (posts_tbl db)) \<and>
   distinct (map uuidv4 [1..<1 + length files]) \<and>
   (\<forall>j\<in>{1..<1 + length files}. uuidv4 j \<notin> set (map m_id (media_tbl db))) \<longrightarrow>
   create_post uuidv4 now text author community files db =
     (\<lparr>status = 200,
       json = Post_body
         \<lparr>row = \<lparr>p_id = uuidv4 0, p_author = default_to Anonimo author,
                  p_text = default_to [] text, p_community = default_to [] community,
                  p_created_at = now\<rparr>,
          media = None, reactions = None, comments_count = None\<rparr>\<rparr>,
      db\<lparr>upload_dir := upload_dir db \<union> set (map filename files),
         posts_tbl := posts_tbl db @
           [\<lparr>p_id = uuidv4 0, p_author = default_to Anonimo author,
             p_text = default_to [] text, p_community = default_to [] community,
             p_created_at = now\<rparr>],
         media_tbl := media_tbl db @
           map (\<lambda>(j, f). \<lparr>m_id = uuidv4 j, m_post_id = uuidv4 0, m_filename = filename f,
                           m_mime = mimetype f\<rparr>)
             (zip [1..<1 + length files] files)\<rparr>)
   \<and> length (posts_tbl (snd (create_post uuidv4 now text author community files db))) =
       length (posts_tbl db) + 1
   \<and> length (media_tbl (snd (create_post uuidv4 now text author community files db))) =
       length (media_tbl db) + length files"
proof
  assume h: "length files \<le> 6 \<and> uuidv4 0 \<notin> set (map p_id (posts_tbl db)) \<and>
   distinct (map uuidv4 [1..<1 + length files]) \<and>
   (\<forall>j\<in>{1..<1 + length files}. uuidv4 j \<notin> set (map m_id (media_tbl db)))"
  let ?P = "\<lparr>p_id = uuidv4 0, p_author = default_to Anonimo author,
             p_text = default_to [] text, p_community = default_to [] community,
             p_created_at = now\<rparr>"
  let ?db0 = "db\<lparr>upload_dir := upload_dir db \<union> set (map filename files)\<rparr>"
  let ?db1 = "?db0\<lparr>posts_tbl := posts_tbl ?db0 @ [?P]\<rparr>"
  let ?ms = "map (\<lambda>(j, f). \<lparr>m_id = uuidv4 j, m_post_id = uuidv4 0, m_filename = filename f,
                           m_mime = mimetype f\<rparr>) (zip [1..<1 + length files] files)"
  let ?db2 = "?db1\<lparr>media_tbl := media_tbl ?db1 @ ?ms\<rparr>"
  have up: "upload_array 6 files db = Inr ?db0"
    using h by (simp add: upload_array_def)
  have ip: "insert_post ?P ?db0 = Inr ?db1"
    using h by (simp add: insert_post_def)
  have "\<forall>j\<in>{1..<1 + length files}. uuidv4 j \<notin> m_id ` set (media_tbl ?db1)"
    using h by simp
  then have files: "insert_files uuidv4 1 (uuidv4 0) files ?db1 = (None, ?db2)"
    using h insert_files_fresh [of uuidv4 1 files ?db1 "uuidv4 0"] by blast
  have sel: "select_post (uuidv4 0) ?db2 = Some ?P"
    using h by (simp add: select_post_def find_appended)
  have run: "create_post uuidv4 now text author community files db =
      (\<lparr>status = 200, json = Post_body (bare ?P)\<rparr>, ?db2)"
    by (simp only: create_post_def up ip files sel res_simps Let_def sum.case option.case
        prod.case)
  then show "create_post uuidv4 now text author community files db =
     (\<lparr>status = 200,
       json = Post_body
         \<lparr>row = \<lparr>p_id = uuidv4 0, p_author = default_to Anonimo author,
                  p_text = default_to [] text, p_community = default_to [] community,
                  p_created_at = now\<rparr>,
          media = None, reactions = None, comments_count = None\<rparr>\<rparr>,
      db\<lparr>upload_dir := upload_dir db \<union> set (map filename files),
         posts_tbl := posts_tbl db @
           [\<lparr>p_id = uuidv4 0, p_author = default_to Anonimo author,
             p_text = default_to [] text, p_community = default_to [] community,
             p_created_at = now\<rparr>],
         media_tbl := media_tbl db @
           map (\<lambda>(j, f). \<lparr>m_id = uuidv4 j, m_post_id = uuidv4 0, m_filename = filename f,
                           m_mime = mimetype f\<rparr>)
             (zip [1..<1 + length files] files)\<rparr>)
   \<and> length (posts_tbl (snd (create_post uuidv4 now text author community files db))) =
       length (posts_tbl db) + 1
   \<and> length (media_tbl (snd (create_post uuidv4 now text author community files db))) =
       length (media_tbl db) + length files"
    by (simp add: bare_def del: upt_Suc)
qed

theorem create_post_inserts_witness:
  "create_post example_uuid 300 (Some ''hi'') None None
      [\<lparr>filename = ''300_f.png'', mimetype = ''image/png''\<rparr>,
       \<lparr>filename = ''300_g.txt'', mimetype = ''text/plain''\<rparr>] example_store =
     (\<lparr>status = 200,
       json = Post_body
         \<lparr>row = \<lparr>p_id = ''u'', p_author = [CHR ''A'', CHR ''n'', CHR 0xC3, CHR 0xB4, CHR ''n'', CHR ''i'', CHR ''m'', CHR ''o''],
                  p_text = ''hi'', p_community = [], p_created_at = 300\<rparr>,
          media = None, reactions = None, comments_count = None\<rparr>\<rparr>,
      example_store
        \<lparr>upload_dir := {''100_a.png'', ''200_q.png'', ''300_f.png'', ''300_g.txt''},
         posts_tbl := posts_tbl example_store @
           [\<lparr>p_id = ''u'', p_author = [CHR ''A'', CHR ''n'', CHR 0xC3, CHR 0xB4, CHR ''n'', CHR ''i'', CHR ''m'', CHR ''o''],
             p_text = ''hi'', p_community = [], p_created_at = 300\<rparr>],
         media_tbl := media_tbl example_store @
           [\<lparr>m_id = ''ux'', m_post_id = ''u'', m_filename = ''300_f.png'', m_mime = ''image/png''\<rparr>,
            \<lparr>m_id = ''uxx'', m_post_id = ''u'', m_filename = ''300_g.txt'', m_mime = ''text/plain''\<rparr>]\<rparr>)"
proof -
  let ?files = "[\<lparr>filename = ''300_f.png'', mimetype = ''image/png''\<rparr>,
       \<lparr>filename = ''300_g.txt'', mimetype = ''text/plain''\<rparr>]"
  have pre: "length ?files \<le> 6 \<and> example_uuid 0 \<notin> set (map p_id (posts_tbl example_store)) \<and>
     distinct (map example_uuid [1..<1 + length ?files]) \<and>
     (\<forall>j\<in>{1..<1 + length ?files}. example_uuid j \<notin> set (map m_id (media_tbl example_store)))"
    by (simp add: example_uuid_def example_store_def upt_conv_Cons)
  show ?thesis
    using create_post_inserts [of ?files example_uuid example_store 300 "Some ''hi''" None None,
        THEN mp, OF pre]
    by (simp add: example_uuid_def example_store_def default_to_def Anonimo_def upt_conv_Cons
        insert_commute)
qed

subsection \<open>Aggregation\<close>

lemma set_properties:
  "distinct (map fst rows) \<Longrightarrow>
   foldl (\<lambda>obj (t, cnt). set_property obj t cnt) obj0 rows k =
     (if k \<noteq> ''__proto__'' \<and> k \<in> fst ` set rows then map_of rows k else obj0 k)"
proof (induction rows arbitrary: obj0)
  case Nil
  then show ?case by simp
next
  case (Cons r rows)
  obtain t cnt where r: "r = (t, cnt)"
    by (cases r)
  have notin: "t \<notin> fst ` set rows" and d: "distinct (map fst rows)"
    using Cons.prems r by auto
  have "foldl (\<lambda>obj (t, cnt). set_property obj t cnt) obj0 (r # rows) k =
      foldl (\<lambda>obj (t, cnt). set_property obj t cnt) (set_property obj0 t cnt) rows k"
    by (simp add: r)
  also have "\<dots> = (if k \<noteq> ''__proto__'' \<and> k \<in> fst ` set rows then map_of rows k
                    else set_property obj0 t cnt k)"
    using d by (rule Cons.IH)
  also have "\<dots> = (if k \<noteq> ''__proto__'' \<and> k \<in> fst ` set (r # rows) then map_of (r # rows) k
                    else obj0 k)"
    using notin by (auto simp: r set_property_def)
  finally show ?case .
qed

lemma group_reactions_keys: "distinct (map fst (group_reactions i db))"
  by (simp add: group_reactions_def Let_def comp_def)

lemma group_reactions_lookup:
  "map_of (group_reactions i db) t =
     (if t \<in> r_type ` set (filter (\<lambda>r. r_post_id r = i) (reactions_tbl db))
      then Some (length (filter (\<lambda>r. r_type r = t) (filter (\<lambda>r. r_post_id r = i) (reactions_tbl db))))
      else None)"
  by (simp add: group_reactions_def Let_def map_of_map_restrict restrict_map_def)

text \<open>
  What the aggregation attaches to a post: the comment count is the number of the
  post's comment rows; a reaction type other than \<open>__proto__\<close> is a key exactly when
  the post has a row of that type, and maps to the number of such rows. The type
  \<open>__proto__\<close> is never a key.
\<close>

lemma attach_counts:
  "\<exists>obj. reactions (attach db p) = Some obj
     \<and> obj ''__proto__'' = None
     \<and> (\<forall>t. t \<noteq> ''__proto__'' \<longrightarrow>
          obj t =
            (let n = length (filter (\<lambda>r. r_post_id r = p_id p \<and> r_type r = t) (reactions_tbl db))
             in if n = 0 then None else Some n))
     \<and> comments_count (attach db p) =
          Some (length (filter (\<lambda>c. c_post_id c = p_id p) (comments_tbl db)))"
proof -
  let ?rows = "group_reactions (p_id p) db"
  let ?obj = "foldl (\<lambda>obj (t, cnt). set_property obj t cnt) Map.empty ?rows"
  have obj: "?obj k = (if k \<noteq> ''__proto__'' \<and> k \<in> fst ` set ?rows then map_of ?rows k else None)" for k
    using set_properties [of "group_reactions (p_id p) db" Map.empty k] group_reactions_keys by simp
  have keys: "fst ` set ?rows = r_type ` set (filter (\<lambda>r. r_post_id r = p_id p) (reactions_tbl db))"
    by (auto simp: group_reactions_def Let_def image_iff)
  have "?obj ''__proto__'' = None"
    by (simp add: obj)
  moreover have "?obj t =
            (let n = length (filter (\<lambda>r. r_post_id r = p_id p \<and> r_type r = t) (reactions_tbl db))
             in if n = 0 then None else Some n)" if "t \<noteq> ''__proto__''" for t
  proof (cases "t \<in> r_type ` set (filter (\<lambda>r. r_post_id r = p_id p) (reactions_tbl db))")
    case True
    then have "length (filter (\<lambda>r. r_post_id r = p_id p \<and> r_type r = t) (reactions_tbl db)) \<noteq> 0"
      by (auto simp: filter_empty_conv)
    then show ?thesis
      using that True by (simp add: obj keys group_reactions_lookup Let_def conj_commute)
  next
    case False
    then have "length (filter (\<lambda>r. r_post_id r = p_id p \<and> r_type r = t) (reactions_tbl db)) = 0"
      by (auto simp: filter_empty_conv)
    then show ?thesis
      using that False by (simp add: obj keys Let_def)
  qed
  moreover have "reactions (attach db p) = Some ?obj"
    by (simp add: attach_def Let_def)
  moreover have "comments_count (attach db p) =
          Some (length (filter (\<lambda>c. c_post_id c = p_id p) (comments_tbl db)))"
    by (simp add: attach_def Let_def count_comments_def)
  ultimately show ?thesis
    by blast
qed

lemma example_aggregate:
  "map (\<lambda>v. (p_id (row v), map_option (\<lambda>obj. map obj [''like'', ''wow'', ''sad'']) (reactions v), comments_count v))
       (listed (list_posts None None example_store)) =
   [(''Q'', Some [Some 1, None, None], Some 0), (''P'', Some [Some 3, Some 1, None], Some 1)]"
  by (simp add: list_posts_default)
    (simp add: example_store_def order_by_created_at_desc_def attach_def Let_def
      set_property_def group_reactions_def count_comments_def)

text \<open>
  Claim C4. The claim asks for every reaction type with a row to be a key of the
  mapping. The handler loses the type \<open>__proto__\<close>: a reaction of that type is
  accepted and stored, the grouped query counts it, and the listed post's
  \<open>reactions\<close> object has no such key.
\<close>

theorem list_posts_proto_type_dropped:
  "add_reaction ''r1'' 101 ''P'' (Some ''__proto__'') None (proto_store\<lparr>reactions_tbl := []\<rparr>) =
     (\<lparr>status = 200, json = Id_body ''r1''\<rparr>, proto_store)
   \<and> group_reactions ''P'' proto_store = [(''__proto__'', 1)]
   \<and> map (\<lambda>v. map_option (\<lambda>obj. obj ''__proto__'') (reactions v))
       (listed (list_posts None None proto_store)) = [Some None]"
  by (simp add: list_posts_default)
    (simp add: proto_store_def add_reaction_def insert_reaction_def default_to_def res_simps
      group_reactions_def order_by_created_at_desc_def attach_def Let_def set_property_def)

end
